theory Spec2Isabelle
  imports Complex_Main "HOL-Library.AList"
begin

section \<open>Python values, errors and the graph store\<close>

text \<open>
  The operations of \<^verbatim>\<open>whatnext/tasks.py\<close> work on a \<^verbatim>\<open>networkx.DiGraph\<close> whose node
  attribute dictionaries hold the exported fields of pydantic models
  (\<^verbatim>\<open>whatnext/data_model.py\<close>). An exception is a value \<open>Inl e\<close>; every operation
  that can mutate the graph returns the graph it leaves behind next to its result, also
  when it raises.
\<close>

datatype error =
  KeyError | TypeError | AttributeError | ValidationError | ReError | IndexError
  | NotImplementedError

text \<open>
  The values a node attribute can hold. A \<^verbatim>\<open>datetime\<close> is its timestamp; a
  \<^verbatim>\<open>float\<close> is only stored and copied, never computed with, and is a real number here.
\<close>

datatype pyval =
  PNone | PBool bool | PInt int | PFloat real | PStr string | PDateTime int
  | PList "pyval list" | PDict "(string \<times> pyval) list"

text \<open>
  A Python \<^verbatim>\<open>dict\<close> with string keys, in insertion order: \<open>AList.update\<close> overwrites
  an existing key in place and appends a new one, as \<^verbatim>\<open>d[k] = v\<close> does.
\<close>

type_synonym attrs = "(string \<times> pyval) list"

definition dict_update :: "attrs \<Rightarrow> attrs \<Rightarrow> attrs" where
  \<comment> \<open>\<^verbatim>\<open>d.update(kvs)\<close>\<close>
  "dict_update d kvs = fold (\<lambda>(k, v) acc. AList.update k v acc) kvs d"

definition dict_get :: "attrs \<Rightarrow> string \<Rightarrow> pyval \<Rightarrow> pyval" where
  \<comment> \<open>\<^verbatim>\<open>d.get(k, default)\<close>\<close>
  "dict_get d k dflt = (case map_of d k of None \<Rightarrow> dflt | Some v \<Rightarrow> v)"

text \<open>
  The graph: its nodes with their attribute dictionaries, in insertion order, each node
  id once, and its edges, which no operation of \<^verbatim>\<open>tasks.py\<close> reads or writes itself.
  \<^verbatim>\<open>len(graph.nodes)\<close> is the length of the node list.
\<close>

record DiGraph =
  nodes :: "(int \<times> attrs) list"
  edges :: "(int \<times> int) list"

definition nodes_contains :: "DiGraph \<Rightarrow> int \<Rightarrow> bool" where
  \<comment> \<open>\<^verbatim>\<open>n in graph.nodes\<close>\<close>
  "nodes_contains graph n = (map_of (nodes graph) n \<noteq> None)"

definition nodes_getitem :: "DiGraph \<Rightarrow> int \<Rightarrow> error + attrs" where
  \<comment> \<open>\<^verbatim>\<open>graph.nodes[n]\<close>: the node's own attribute dictionary, \<^verbatim>\<open>KeyError\<close> if absent\<close>
  "nodes_getitem graph n =
     (case map_of (nodes graph) n of None \<Rightarrow> Inl KeyError | Some d \<Rightarrow> Inr d)"

definition nodes_setitem :: "DiGraph \<Rightarrow> int \<Rightarrow> attrs \<Rightarrow> (error + unit) \<times> DiGraph" where
  \<comment> \<open>\<^verbatim>\<open>graph.nodes[n] = d\<close>: \<^verbatim>\<open>NodeView\<close> is a read-only \<^verbatim>\<open>Mapping\<close> with no
      \<^verbatim>\<open>__setitem__\<close>, so the statement raises \<^verbatim>\<open>TypeError\<close> and stores nothing\<close>
  "nodes_setitem graph n d = (Inl TypeError, graph)"

definition node_setattr :: "DiGraph \<Rightarrow> int \<Rightarrow> string \<Rightarrow> pyval \<Rightarrow> error + DiGraph" where
  \<comment> \<open>\<^verbatim>\<open>graph.nodes[n][k] = v\<close>: item assignment on the node's own dictionary\<close>
  "node_setattr graph n k v =
     (case map_of (nodes graph) n of
        None \<Rightarrow> Inl KeyError
      | Some d \<Rightarrow> Inr (graph\<lparr>nodes := AList.update n (AList.update k v d) (nodes graph)\<rparr>))"

definition add_node :: "DiGraph \<Rightarrow> int \<Rightarrow> attrs \<Rightarrow> DiGraph" where
  \<comment> \<open>\<^verbatim>\<open>graph.add_node(n, **attr)\<close>: a new node starts from an empty dictionary, an
      existing node has its dictionary updated\<close>
  "add_node graph n attr =
     (case map_of (nodes graph) n of
        None \<Rightarrow> graph\<lparr>nodes := nodes graph @ [(n, dict_update [] attr)]\<rparr>
      | Some d \<Rightarrow> graph\<lparr>nodes := AList.update n (dict_update d attr) (nodes graph)\<rparr>)"

section \<open>The data model\<close>

text \<open>
  \<^verbatim>\<open>TimeLog\<close> and \<^verbatim>\<open>Task\<close> are pydantic models. A field annotated \<^verbatim>\<open>Optional\<close>
  defaults to \<^verbatim>\<open>None\<close>; the others are required, so a validated object always holds
  them.
\<close>

record TimeLog =
  tl_task_id :: int
  tl_user_id :: string
  start_time :: "int option"
  end_time :: "int option"
  tl_note :: string

record Task =
  user_id :: string
  task_id :: int
  name :: string
  importance :: real
  completed :: "bool option"
  due :: "int option"
  tags :: "string list option"
  urls :: "string list option"
  users :: "string list option"
  task_notes :: "string list option"
  time_logs :: "TimeLog list option"

definition TimeLog_new ::
  "int \<Rightarrow> string \<Rightarrow> int option \<Rightarrow> int option \<Rightarrow> string option \<Rightarrow> error + TimeLog" where
  \<comment> \<open>\<^verbatim>\<open>TimeLog(task_id=.., user_id=.., start_time=.., end_time=.., note=..)\<close>: the field
      \<^verbatim>\<open>note: str\<close> is not Optional, so \<^verbatim>\<open>note=None\<close> fails validation\<close>
  "TimeLog_new tid uid st en nt =
     (case nt of
        None \<Rightarrow> Inl ValidationError
      | Some s \<Rightarrow> Inr \<lparr>tl_task_id = tid, tl_user_id = uid, start_time = st, end_time = en,
                        tl_note = s\<rparr>)"

definition opt_item :: "string \<Rightarrow> ('a \<Rightarrow> pyval) \<Rightarrow> 'a option \<Rightarrow> attrs" where
  \<comment> \<open>an Optional field is exported only when it is not \<^verbatim>\<open>None\<close>\<close>
  "opt_item k f v = (case v of None \<Rightarrow> [] | Some x \<Rightarrow> [(k, f x)])"

text \<open>
  \<^verbatim>\<open>m.dict(exclude_defaults=True, exclude_none=True, exclude_unset=True)\<close>: the fields
  in declaration order, without those that are \<^verbatim>\<open>None\<close>. A field that was never set
  holds its default \<^verbatim>\<open>None\<close>, and the default of every Optional field is \<^verbatim>\<open>None\<close>,
  so the three exclusions drop the same fields. Nested models are exported the same way,
  as plain dictionaries.
\<close>

definition TimeLog_dict :: "TimeLog \<Rightarrow> attrs" where
  "TimeLog_dict l =
     [(''task_id'', PInt (tl_task_id l)), (''user_id'', PStr (tl_user_id l))]
     @ opt_item ''start_time'' PDateTime (start_time l)
     @ opt_item ''end_time'' PDateTime (end_time l)
     @ [(''note'', PStr (tl_note l))]"

definition Task_dict :: "Task \<Rightarrow> attrs" where
  "Task_dict t =
     [(''user_id'', PStr (user_id t)), (''task_id'', PInt (task_id t)),
      (''name'', PStr (name t)), (''importance'', PFloat (importance t))]
     @ opt_item ''completed'' PBool (completed t)
     @ opt_item ''due'' PDateTime (due t)
     @ opt_item ''tags'' (\<lambda>xs. PList (map PStr xs)) (tags t)
     @ opt_item ''urls'' (\<lambda>xs. PList (map PStr xs)) (urls t)
     @ opt_item ''users'' (\<lambda>xs. PList (map PStr xs)) (users t)
     @ opt_item ''notes'' (\<lambda>xs. PList (map PStr xs)) (task_notes t)
     @ opt_item ''time_logs'' (\<lambda>ls. PList (map (\<lambda>l. PDict (TimeLog_dict l)) ls)) (time_logs t)"

definition Task_positional :: "attrs \<Rightarrow> error + Task" where
  \<comment> \<open>\<^verbatim>\<open>Task(d)\<close> with the dictionary as a positional argument: pydantic's
      \<^verbatim>\<open>BaseModel.__init__\<close> takes keyword arguments only, so the call raises
      \<^verbatim>\<open>TypeError\<close> whatever \<^verbatim>\<open>d\<close> holds (\<^verbatim>\<open>list_tasks\<close> writes \<^verbatim>\<open>Task(**d)\<close>)\<close>
  "Task_positional d = Inl TypeError"

section \<open>Single-task operations\<close>

fun patch_node :: "DiGraph \<Rightarrow> int \<Rightarrow> attrs \<Rightarrow> (error + unit) \<times> DiGraph" where
  \<comment> \<open>\<^verbatim>\<open>for k, v in task_spec.items(): graph.nodes[n][k] = v\<close>\<close>
  "patch_node graph n [] = (Inr (), graph)"
| "patch_node graph n ((k, v) # kvs) =
     (case node_setattr graph n k v of
        Inl e \<Rightarrow> (Inl e, graph)
      | Inr graph' \<Rightarrow> patch_node graph' n kvs)"

definition create_task :: "DiGraph \<Rightarrow> Task \<Rightarrow> (error + int) \<times> DiGraph" where
  \<comment> \<open>\<^verbatim>\<open>del task_spec["name"]\<close> cannot raise: \<^verbatim>\<open>name\<close> is a required field\<close>
  "create_task graph task =
     (if task_id task < 0 then
        (let task = task\<lparr>task_id := int (length (nodes graph))\<rparr>
         in (Inr (task_id task),
             add_node graph (task_id task) ((''kind'', PStr ''task'') # Task_dict task)))
      else if name task = ''_existing_node'' then
        (case patch_node graph (task_id task) (AList.delete ''name'' (Task_dict task)) of
           (Inl e, graph') \<Rightarrow> (Inl e, graph')
         | (Inr _, graph') \<Rightarrow> (Inr (task_id task), graph'))
      else
        (Inr (task_id task),
         add_node graph (task_id task) ((''kind'', PStr ''task'') # Task_dict task)))"

definition delete_task :: "DiGraph \<Rightarrow> int \<Rightarrow> (error + int) \<times> DiGraph" where
  "delete_task graph tid = (Inl NotImplementedError, graph)"

definition get_task_from_graph :: "int \<Rightarrow> DiGraph \<Rightarrow> error + Task" where
  \<comment> \<open>\<^verbatim>\<open>Task(graph.nodes[task_id])\<close>: the lookup is evaluated first\<close>
  "get_task_from_graph tid graph =
     (case nodes_getitem graph tid of
        Inl e \<Rightarrow> Inl e
      | Inr d \<Rightarrow> Task_positional d)"

definition update_task_in_graph :: "Task \<Rightarrow> DiGraph \<Rightarrow> (error + unit) \<times> DiGraph" where
  \<comment> \<open>the exported \<^verbatim>\<open>time_logs\<close> are plain dictionaries already, so \<^verbatim>\<open>time_log.dict(..)\<close>
      raises \<^verbatim>\<open>AttributeError\<close> on the first of them; with none, the key is set to the
      empty list and the node view is assigned to\<close>
  "update_task_in_graph task graph =
     (let task_spec = Task_dict task
      in case dict_get task_spec ''time_logs'' (PList []) of
           PList (l # ls) \<Rightarrow> (Inl AttributeError, graph)
         | _ \<Rightarrow>
             (let task_spec = AList.update ''time_logs'' (PList []) task_spec
              in nodes_setitem graph (task_id task) task_spec))"

definition write_back :: "Task \<Rightarrow> DiGraph \<Rightarrow> (error + Task option) \<times> DiGraph" where
  \<comment> \<open>\<^verbatim>\<open>graph = update_task_in_graph(task, graph); return task\<close>\<close>
  "write_back task graph =
     (case update_task_in_graph task graph of
        (Inl e, graph') \<Rightarrow> (Inl e, graph')
      | (Inr _, graph') \<Rightarrow> (Inr (Some task), graph'))"

definition update_task ::
  "DiGraph \<Rightarrow> int \<Rightarrow> string option \<Rightarrow> string option \<Rightarrow> bool option \<Rightarrow> real option
     \<Rightarrow> int option \<Rightarrow> (error + Task option) \<times> DiGraph" where
  "update_task graph tid uid nm cmpl imp du =
     (if nodes_contains graph tid then
        (case get_task_from_graph tid graph of
           Inl e \<Rightarrow> (Inl e, graph)
         | Inr task \<Rightarrow>
             (let task = (case uid of Some u \<Rightarrow> if length u \<noteq> 0 then task\<lparr>user_id := u\<rparr> else task
                          | None \<Rightarrow> task);
                  task = (case nm of Some n \<Rightarrow> if length n \<noteq> 0 then task\<lparr>name := n\<rparr> else task
                          | None \<Rightarrow> task);
                  task = (case cmpl of Some c \<Rightarrow> task\<lparr>completed := Some c\<rparr> | None \<Rightarrow> task);
                  task = (case imp of Some i \<Rightarrow> task\<lparr>importance := i\<rparr> | None \<Rightarrow> task);
                  task = (case du of Some d \<Rightarrow> task\<lparr>due := Some d\<rparr> | None \<Rightarrow> task)
              in write_back task graph))
      else (Inr None, graph))"

text \<open>
  \<^verbatim>\<open>complete_task\<close>: \<open>now\<close> is what \<^verbatim>\<open>datetime.datetime.now()\<close> returns, read only
  when no \<^verbatim>\<open>end_time\<close> is given. The test \<^verbatim>\<open>task is None\<close> of the source has no branch
  here: \<^verbatim>\<open>get_task_from_graph\<close> returns a \<^verbatim>\<open>Task\<close> or raises. \<^verbatim>\<open>len(task.time_logs)\<close>
  raises \<^verbatim>\<open>TypeError\<close> when the field is \<^verbatim>\<open>None\<close>.
\<close>

definition complete_task ::
  "DiGraph \<Rightarrow> int \<Rightarrow> int option \<Rightarrow> int \<Rightarrow> (error + Task option) \<times> DiGraph" where
  "complete_task graph tid end_time_arg now =
     (let end_t = (case end_time_arg of Some t \<Rightarrow> t | None \<Rightarrow> now)
      in case get_task_from_graph tid graph of
           Inl e \<Rightarrow> (Inl e, graph)
         | Inr task \<Rightarrow>
             if completed task = Some True then (Inr (Some task), graph)
             else
               (let task = task\<lparr>completed := Some True\<rparr>
                in case time_logs task of
                     None \<Rightarrow> (Inl TypeError, graph)
                   | Some logs \<Rightarrow>
                       if length logs \<noteq> 0 then
                         (let last_log = last logs;
                              logs = (if end_time last_log = None
                                      then butlast logs @ [last_log\<lparr>end_time := Some end_t\<rparr>]
                                      else logs)
                          in write_back (task\<lparr>time_logs := Some logs\<rparr>) graph)
                       else
                         (case TimeLog_new (task_id task) (user_id task) None (Some end_t) None of
                            Inl e \<Rightarrow> (Inl e, graph)
                          | Inr time_log \<Rightarrow>
                              write_back (task\<lparr>time_logs := Some (logs @ [time_log])\<rparr>) graph)))"

section \<open>Tags, urls, users and notes\<close>

definition py_set :: "string list option \<Rightarrow> error + string list" where
  \<comment> \<open>\<^verbatim>\<open>set(xs)\<close>: the distinct elements, here in the order of first occurrence (Python
      fixes no order); \<^verbatim>\<open>set(None)\<close> raises \<^verbatim>\<open>TypeError\<close>\<close>
  "py_set xs = (case xs of None \<Rightarrow> Inl TypeError | Some ys \<Rightarrow> Inr (remdups ys))"

definition add_tag :: "DiGraph \<Rightarrow> int \<Rightarrow> string \<Rightarrow> (error + unit) \<times> DiGraph" where
  "add_tag graph tid tag =
     (case get_task_from_graph tid graph of
        Inl e \<Rightarrow> (Inl e, graph)
      | Inr task \<Rightarrow>
          (case py_set (tags task) of
             Inl e \<Rightarrow> (Inl e, graph)
           | Inr tags_set \<Rightarrow>
               update_task_in_graph (task\<lparr>tags := Some (List.insert tag tags_set)\<rparr>) graph))"

definition remove_tag :: "DiGraph \<Rightarrow> int \<Rightarrow> string \<Rightarrow> (error + unit) \<times> DiGraph" where
  "remove_tag graph tid tag =
     (case get_task_from_graph tid graph of
        Inl e \<Rightarrow> (Inl e, graph)
      | Inr task \<Rightarrow>
          (case py_set (tags task) of
             Inl e \<Rightarrow> (Inl e, graph)
           | Inr tags_set \<Rightarrow>
               if tag \<in> set tags_set
               then update_task_in_graph (task\<lparr>tags := Some (removeAll tag tags_set)\<rparr>) graph
               else (Inl KeyError, graph)))"

definition add_url :: "DiGraph \<Rightarrow> int \<Rightarrow> string \<Rightarrow> (error + unit) \<times> DiGraph" where
  "add_url graph tid url =
     (case get_task_from_graph tid graph of
        Inl e \<Rightarrow> (Inl e, graph)
      | Inr task \<Rightarrow>
          (case py_set (urls task) of
             Inl e \<Rightarrow> (Inl e, graph)
           | Inr urls_set \<Rightarrow>
               update_task_in_graph (task\<lparr>urls := Some (List.insert url urls_set)\<rparr>) graph))"

definition remove_url :: "DiGraph \<Rightarrow> int \<Rightarrow> string \<Rightarrow> (error + unit) \<times> DiGraph" where
  "remove_url graph tid url =
     (case get_task_from_graph tid graph of
        Inl e \<Rightarrow> (Inl e, graph)
      | Inr task \<Rightarrow>
          (case py_set (urls task) of
             Inl e \<Rightarrow> (Inl e, graph)
           | Inr urls_set \<Rightarrow>
               if url \<in> set urls_set
               then update_task_in_graph (task\<lparr>urls := Some (removeAll url urls_set)\<rparr>) graph
               else (Inl KeyError, graph)))"

definition add_user :: "DiGraph \<Rightarrow> int \<Rightarrow> string \<Rightarrow> (error + unit) \<times> DiGraph" where
  "add_user graph tid user =
     (case get_task_from_graph tid graph of
        Inl e \<Rightarrow> (Inl e, graph)
      | Inr task \<Rightarrow>
          (case py_set (users task) of
             Inl e \<Rightarrow> (Inl e, graph)
           | Inr users_set \<Rightarrow>
               update_task_in_graph (task\<lparr>users := Some (List.insert user users_set)\<rparr>) graph))"

definition remove_user :: "DiGraph \<Rightarrow> int \<Rightarrow> string \<Rightarrow> (error + unit) \<times> DiGraph" where
  \<comment> \<open>the source calls \<^verbatim>\<open>users.remove(users)\<close>: the set itself is looked up among its own
      elements, which are strings, so the call raises \<^verbatim>\<open>KeyError\<close> for every \<^verbatim>\<open>user\<close>\<close>
  "remove_user graph tid user =
     (case get_task_from_graph tid graph of
        Inl e \<Rightarrow> (Inl e, graph)
      | Inr task \<Rightarrow>
          (case py_set (users task) of
             Inl e \<Rightarrow> (Inl e, graph)
           | Inr users_set \<Rightarrow>
               (Inl KeyError, graph)))"

definition list_setitem :: "'a list \<Rightarrow> int \<Rightarrow> 'a \<Rightarrow> error + 'a list" where
  \<comment> \<open>\<^verbatim>\<open>xs[i] = v\<close>: a negative index counts from the end\<close>
  "list_setitem xs i v =
     (let n = int (length xs); j = (if i < 0 then i + n else i)
      in if 0 \<le> j \<and> j < n then Inr (xs[nat j := v]) else Inl IndexError)"

definition add_note :: "DiGraph \<Rightarrow> int \<Rightarrow> string \<Rightarrow> (error + unit) \<times> DiGraph" where
  "add_note graph tid nt =
     (case get_task_from_graph tid graph of
        Inl e \<Rightarrow> (Inl e, graph)
      | Inr task \<Rightarrow>
          (let ns = (case task_notes task of None \<Rightarrow> [] | Some ns \<Rightarrow> ns)
           in update_task_in_graph (task\<lparr>task_notes := Some (ns @ [nt])\<rparr>) graph))"

definition update_note ::
  "DiGraph \<Rightarrow> int \<Rightarrow> int \<Rightarrow> string \<Rightarrow> (error + unit) \<times> DiGraph" where
  \<comment> \<open>\<^verbatim>\<open>len(task.notes)\<close> raises \<^verbatim>\<open>TypeError\<close> when the field is \<^verbatim>\<open>None\<close>\<close>
  "update_note graph tid note_id nt =
     (case get_task_from_graph tid graph of
        Inl e \<Rightarrow> (Inl e, graph)
      | Inr task \<Rightarrow>
          (case task_notes task of
             None \<Rightarrow> (Inl TypeError, graph)
           | Some ns \<Rightarrow>
               if note_id < int (length ns) then
                 (case list_setitem ns note_id nt of
                    Inl e \<Rightarrow> (Inl e, graph)
                  | Inr ns' \<Rightarrow> update_task_in_graph (task\<lparr>task_notes := Some ns'\<rparr>) graph)
               else update_task_in_graph task graph))"

definition remove_note :: "DiGraph \<Rightarrow> int \<Rightarrow> int \<Rightarrow> (error + unit) \<times> DiGraph" where
  "remove_note graph tid note_id =
     (case get_task_from_graph tid graph of
        Inl e \<Rightarrow> (Inl e, graph)
      | Inr task \<Rightarrow>
          (case task_notes task of
             None \<Rightarrow> (Inl TypeError, graph)
           | Some ns \<Rightarrow>
               if 0 \<le> note_id \<and> note_id < int (length ns) then
                 update_task_in_graph
                   (task\<lparr>task_notes := Some (take (nat note_id) ns @ drop (Suc (nat note_id)) ns)\<rparr>)
                   graph
               else (Inr (), graph)))"

section \<open>Listing\<close>

text \<open>
  A list comprehension evaluates its elements in order and stops at the first exception.
\<close>

fun filter_err :: "('a \<Rightarrow> error + bool) \<Rightarrow> 'a list \<Rightarrow> error + 'a list" where
  "filter_err p [] = Inr []"
| "filter_err p (x # xs) =
     (case p x of
        Inl e \<Rightarrow> Inl e
      | Inr b \<Rightarrow>
          (case filter_err p xs of
             Inl e \<Rightarrow> Inl e
           | Inr ys \<Rightarrow> Inr (if b then x # ys else ys)))"

fun map_err :: "('a \<Rightarrow> error + 'b) \<Rightarrow> 'a list \<Rightarrow> error + 'b list" where
  "map_err f [] = Inr []"
| "map_err f (x # xs) =
     (case f x of
        Inl e \<Rightarrow> Inl e
      | Inr y \<Rightarrow> (case map_err f xs of Inl e \<Rightarrow> Inl e | Inr ys \<Rightarrow> Inr (y # ys)))"

fun hashable :: "pyval \<Rightarrow> bool" where
  "hashable (PList xs) = False"
| "hashable (PDict kvs) = False"
| "hashable v = True"

definition py_iter :: "pyval \<Rightarrow> error + pyval list" where
  \<comment> \<open>the elements \<^verbatim>\<open>set(v)\<close> iterates over: of a list its items, of a string its
      characters, of a dictionary its keys; anything else is not iterable\<close>
  "py_iter v =
     (case v of
        PList xs \<Rightarrow> Inr xs
      | PStr s \<Rightarrow> Inr (map (\<lambda>c. PStr [c]) s)
      | PDict kvs \<Rightarrow> Inr (map (\<lambda>kv. PStr (fst kv)) kvs)
      | _ \<Rightarrow> Inl TypeError)"

definition intersects :: "DiGraph \<Rightarrow> string \<Rightarrow> string list \<Rightarrow> int \<Rightarrow> error + bool" where
  \<comment> \<open>the truth value of \<^verbatim>\<open>len(set(graph.nodes[node_id].get(key, [])).intersection(wanted))\<close>
      for a set \<^verbatim>\<open>wanted\<close> of strings: building the set raises \<^verbatim>\<open>TypeError\<close> on an
      unhashable element, and only a string equals a string\<close>
  "intersects graph key wanted node_id =
     (case nodes_getitem graph node_id of
        Inl e \<Rightarrow> Inl e
      | Inr d \<Rightarrow>
          (case py_iter (dict_get d key (PList [])) of
             Inl e \<Rightarrow> Inl e
           | Inr vs \<Rightarrow>
               if list_all hashable vs
               then Inr (length (filter (\<lambda>v. v \<in> PStr ` set wanted) (remdups vs)) \<noteq> 0)
               else Inl TypeError))"

definition search_filter ::
  "(string \<Rightarrow> bool) \<Rightarrow> DiGraph \<Rightarrow> string \<Rightarrow> int list \<Rightarrow> error + int list" where
  \<comment> \<open>\<^verbatim>\<open>pattern = re.compile(search)\<close> raises \<^verbatim>\<open>re.error\<close> on a string that is no regular
      expression (\<open>valid_re\<close> says which are); the comprehension then calls the compiled
      pattern itself, \<^verbatim>\<open>pattern(name)\<close>, and a pattern object is not callable: after the
      argument is evaluated the call raises \<^verbatim>\<open>TypeError\<close>\<close>
  "search_filter valid_re graph search node_ids =
     (if \<not> valid_re search then Inl ReError
      else filter_err
             (\<lambda>node_id. case nodes_getitem graph node_id of
                          Inl e \<Rightarrow> Inl e
                        | Inr d \<Rightarrow> Inl TypeError)
             node_ids)"

definition when_given ::
  "'a list option \<Rightarrow> ('a list \<Rightarrow> int list \<Rightarrow> error + int list) \<Rightarrow> int list \<Rightarrow> error + int list" where
  \<comment> \<open>\<^verbatim>\<open>if x is not None and len(x): node_ids = f(x, node_ids)\<close>\<close>
  "when_given x f node_ids =
     (case x of
        None \<Rightarrow> Inr node_ids
      | Some xs \<Rightarrow> if length xs \<noteq> 0 then f xs node_ids else Inr node_ids)"

definition and_then :: "error + 'a \<Rightarrow> ('a \<Rightarrow> error + 'b) \<Rightarrow> error + 'b" where
  "and_then r f = (case r of Inl e \<Rightarrow> Inl e | Inr x \<Rightarrow> f x)"

text \<open>
  \<^verbatim>\<open>list_tasks\<close>. The sort routine \<^verbatim>\<open>graph.sort_nodes\<close> lies outside these sources and is
  the parameter \<open>sort_nodes\<close>; pydantic's validation \<^verbatim>\<open>Task(**d)\<close> of a node's
  dictionary is the parameter \<open>Task_kw\<close>. \<open>list_task_ids\<close> is the value of
  \<^verbatim>\<open>node_ids\<close> after the four filters; the \<^verbatim>\<open>print\<close> statement then reads every node's
  dictionary before the first \<^verbatim>\<open>Task\<close> is built.
\<close>

definition list_task_ids ::
  "(DiGraph \<Rightarrow> string \<Rightarrow> int \<Rightarrow> bool \<Rightarrow> bool \<Rightarrow> int list) \<Rightarrow> (string \<Rightarrow> bool) \<Rightarrow> DiGraph
     \<Rightarrow> string \<Rightarrow> int \<Rightarrow> bool \<Rightarrow> bool \<Rightarrow> string option \<Rightarrow> string list option
     \<Rightarrow> string list option \<Rightarrow> string list option \<Rightarrow> error + int list" where
  "list_task_ids sort_nodes valid_re graph sort_by limit ascending only_leaves search tgs uls usrs =
     and_then (when_given search (search_filter valid_re graph)
                 (sort_nodes graph sort_by limit ascending only_leaves))
       (\<lambda>node_ids. and_then (when_given tgs (\<lambda>ts. filter_err (intersects graph ''tags'' ts)) node_ids)
       (\<lambda>node_ids. and_then (when_given uls (\<lambda>us. filter_err (intersects graph ''urls'' us)) node_ids)
       (\<lambda>node_ids. when_given usrs (\<lambda>us. filter_err (intersects graph ''users'' us)) node_ids)))"

definition list_tasks ::
  "(DiGraph \<Rightarrow> string \<Rightarrow> int \<Rightarrow> bool \<Rightarrow> bool \<Rightarrow> int list) \<Rightarrow> (string \<Rightarrow> bool)
     \<Rightarrow> (attrs \<Rightarrow> error + Task) \<Rightarrow> DiGraph
     \<Rightarrow> string \<Rightarrow> int \<Rightarrow> bool \<Rightarrow> bool \<Rightarrow> string option \<Rightarrow> string list option
     \<Rightarrow> string list option \<Rightarrow> string list option \<Rightarrow> error + Task list" where
  "list_tasks sort_nodes valid_re Task_kw graph sort_by limit ascending only_leaves search tgs uls usrs =
     and_then (list_task_ids sort_nodes valid_re graph sort_by limit ascending only_leaves
                 search tgs uls usrs)
       (\<lambda>node_ids. and_then (map_err (nodes_getitem graph) node_ids)
       (\<lambda>ds. map_err Task_kw ds))"

section \<open>Validation of a node's dictionary\<close>

text \<open>
  \<^verbatim>\<open>list_tasks\<close> leaves \<^verbatim>\<open>Task(**d)\<close> to its parameter. \<open>Task_exact\<close> is an instance for
  the examples below: it reads back a dictionary whose values already have the declared
  types, as \<open>Task_dict\<close> writes them, and rejects every other one (pydantic would also
  convert some values of other types).
\<close>

fun str_items :: "pyval list \<Rightarrow> string list option" where
  "str_items [] = Some []"
| "str_items (PStr s # vs) = map_option ((#) s) (str_items vs)"
| "str_items (v # vs) = None"

definition as_str :: "pyval \<Rightarrow> string option" where
  "as_str v = (case v of PStr s \<Rightarrow> Some s | _ \<Rightarrow> None)"

definition as_int :: "pyval \<Rightarrow> int option" where
  "as_int v = (case v of PInt i \<Rightarrow> Some i | _ \<Rightarrow> None)"

definition as_float :: "pyval \<Rightarrow> real option" where
  "as_float v = (case v of PFloat r \<Rightarrow> Some r | _ \<Rightarrow> None)"

definition as_bool :: "pyval \<Rightarrow> bool option" where
  "as_bool v = (case v of PBool b \<Rightarrow> Some b | _ \<Rightarrow> None)"

definition as_datetime :: "pyval \<Rightarrow> int option" where
  "as_datetime v = (case v of PDateTime t \<Rightarrow> Some t | _ \<Rightarrow> None)"

definition as_str_list :: "pyval \<Rightarrow> string list option" where
  "as_str_list v = (case v of PList vs \<Rightarrow> str_items vs | _ \<Rightarrow> None)"

definition required :: "(pyval \<Rightarrow> 'a option) \<Rightarrow> attrs \<Rightarrow> string \<Rightarrow> 'a option" where
  "required f d k = (case map_of d k of None \<Rightarrow> None | Some v \<Rightarrow> f v)"

definition optional :: "(pyval \<Rightarrow> 'a option) \<Rightarrow> attrs \<Rightarrow> string \<Rightarrow> 'a option option" where
  "optional f d k =
     (case map_of d k of
        None \<Rightarrow> Some None
      | Some PNone \<Rightarrow> Some None
      | Some v \<Rightarrow> map_option Some (f v))"

definition as_TimeLog :: "pyval \<Rightarrow> TimeLog option" where
  "as_TimeLog v =
     (case v of
        PDict d \<Rightarrow>
          Option.bind (required as_int d ''task_id'') (\<lambda>tid.
          Option.bind (required as_str d ''user_id'') (\<lambda>uid.
          Option.bind (optional as_datetime d ''start_time'') (\<lambda>st.
          Option.bind (optional as_datetime d ''end_time'') (\<lambda>en.
          Option.bind (required as_str d ''note'') (\<lambda>nt.
          Some \<lparr>tl_task_id = tid, tl_user_id = uid, start_time = st, end_time = en,
                tl_note = nt\<rparr>)))))
      | _ \<Rightarrow> None)"

fun TimeLog_items :: "pyval list \<Rightarrow> TimeLog list option" where
  "TimeLog_items [] = Some []"
| "TimeLog_items (v # vs) =
     Option.bind (as_TimeLog v) (\<lambda>l. map_option ((#) l) (TimeLog_items vs))"

definition as_TimeLog_list :: "pyval \<Rightarrow> TimeLog list option" where
  "as_TimeLog_list v = (case v of PList vs \<Rightarrow> TimeLog_items vs | _ \<Rightarrow> None)"

definition Task_exact :: "attrs \<Rightarrow> error + Task" where
  "Task_exact d =
     (case
        Option.bind (required as_str d ''user_id'') (\<lambda>uid.
        Option.bind (required as_int d ''task_id'') (\<lambda>tid.
        Option.bind (required as_str d ''name'') (\<lambda>nm.
        Option.bind (required as_float d ''importance'') (\<lambda>imp.
        Option.bind (optional as_bool d ''completed'') (\<lambda>cmpl.
        Option.bind (optional as_datetime d ''due'') (\<lambda>du.
        Option.bind (optional as_str_list d ''tags'') (\<lambda>tgs.
        Option.bind (optional as_str_list d ''urls'') (\<lambda>uls.
        Option.bind (optional as_str_list d ''users'') (\<lambda>usrs.
        Option.bind (optional as_str_list d ''notes'') (\<lambda>nts.
        Option.bind (optional as_TimeLog_list d ''time_logs'') (\<lambda>logs.
        Some \<lparr>user_id = uid, task_id = tid, name = nm, importance = imp, completed = cmpl,
              due = du, tags = tgs, urls = uls, users = usrs, task_notes = nts,
              time_logs = logs\<rparr>)))))))))))
      of None \<Rightarrow> Inl ValidationError | Some t \<Rightarrow> Inr t)"

section \<open>Notions of the statements\<close>

text \<open>
  \<open>stored_set graph key n\<close> is the set of values stored under \<open>key\<close> at node \<open>n\<close>
  (empty when the node or the key is absent). \<open>readable\<close> says that the filter of
  \<^verbatim>\<open>list_tasks\<close> can build that set. \<open>ids_nonneg\<close> is the data model's invariant that
  node ids are not negative.
\<close>

definition stored_set :: "DiGraph \<Rightarrow> string \<Rightarrow> int \<Rightarrow> pyval set" where
  "stored_set graph key node_id =
     (case map_of (nodes graph) node_id of
        None \<Rightarrow> {}
      | Some d \<Rightarrow> (case py_iter (dict_get d key (PList [])) of Inl e \<Rightarrow> {} | Inr vs \<Rightarrow> set vs))"

definition readable :: "DiGraph \<Rightarrow> string \<Rightarrow> int \<Rightarrow> bool" where
  "readable graph key node_id =
     (case map_of (nodes graph) node_id of
        None \<Rightarrow> False
      | Some d \<Rightarrow>
          (case py_iter (dict_get d key (PList [])) of
             Inl e \<Rightarrow> False
           | Inr vs \<Rightarrow> list_all hashable vs))"

definition ids_nonneg :: "DiGraph \<Rightarrow> bool" where
  "ids_nonneg graph = (\<forall>n \<in> fst ` set (nodes graph). 0 \<le> n)"

section \<open>Example stores\<close>

text \<open>
  Stores built by \<^verbatim>\<open>create_task\<close> itself from the empty graph.
\<close>

definition empty_graph :: DiGraph where
  "empty_graph = \<lparr>nodes = [], edges = []\<rparr>"

definition spec_task :: Task where
  "spec_task =
     \<lparr>user_id = ''ann'', task_id = - 1, name = ''write spec'', importance = 5,
      completed = None, due = None, tags = Some [''a'', ''b''], urls = None,
      users = Some [''ann''], task_notes = Some [''draft''], time_logs = Some []\<rparr>"

definition spec_graph :: DiGraph where
  "spec_graph = snd (create_task empty_graph spec_task)"

definition patch_task :: Task where
  "patch_task =
     \<lparr>user_id = ''bob'', task_id = 0, name = ''_existing_node'', importance = 7,
      completed = Some True, due = None, tags = None, urls = Some [''http://x''],
      users = None, task_notes = None, time_logs = None\<rparr>"

definition other_task :: Task where
  "other_task =
     \<lparr>user_id = ''bob'', task_id = - 1, name = ''review'', importance = 2,
      completed = Some True, due = Some 20, tags = Some [''z''], urls = None,
      users = None, task_notes = None, time_logs = None\<rparr>"

definition two_graph :: DiGraph where
  "two_graph = snd (create_task spec_graph other_task)"

definition done_task :: Task where
  "done_task = spec_task\<lparr>completed := Some True\<rparr>"

definition done_graph :: DiGraph where
  "done_graph = snd (create_task empty_graph done_task)"

definition bare_task :: Task where
  "bare_task =
     \<lparr>user_id = ''ann'', task_id = - 1, name = ''plan'', importance = 1,
      completed = None, due = None, tags = None, urls = None,
      users = None, task_notes = None, time_logs = None\<rparr>"

definition bare_graph :: DiGraph where
  "bare_graph = snd (create_task empty_graph bare_task)"

section \<open>Dictionaries and node updates\<close>

lemma map_of_dict_update:
  "map_of (dict_update d kvs) = map_of d ++ map_of (rev kvs)"
  unfolding dict_update_def
proof (induction kvs arbitrary: d)
  case Nil
  show ?case by simp
next
  case (Cons kv kvs)
  obtain k v where kv: "kv = (k, v)" by (cases kv)
  show ?case
    by (auto simp: kv Cons.IH update_conv' map_add_def fun_eq_iff split: option.splits)
qed

lemma map_of_rev_distinct:
  "distinct (map fst kvs) \<Longrightarrow> map_of (rev kvs) = map_of kvs"
proof (induction kvs)
  case Nil
  show ?case by simp
next
  case (Cons kv kvs)
  then have "fst kv \<notin> dom (map_of kvs)" by (simp add: dom_map_of_conv_image_fst)
  with Cons show ?case
    by (cases kv) (auto simp: map_add_def fun_eq_iff dom_def split: option.splits)
qed

lemma patch_node_present:
  "map_of (nodes graph) n = Some old \<Longrightarrow>
   patch_node graph n kvs =
     (Inr (), graph\<lparr>nodes := AList.update n (dict_update old kvs) (nodes graph)\<rparr>)"
proof (induction kvs arbitrary: graph old)
  case Nil
  then show ?case by (simp add: dict_update_def update_triv)
next
  case (Cons kv kvs)
  obtain k v where kv: "kv = (k, v)" by (cases kv)
  let ?g = "graph\<lparr>nodes := AList.update n (AList.update k v old) (nodes graph)\<rparr>"
  have "map_of (nodes ?g) n = Some (AList.update k v old)"
    by (simp add: update_conv')
  from Cons.IH[OF this] Cons.prems show ?case
    by (simp add: kv node_setattr_def dict_update_def update_last)
qed

lemma keys_opt_item:
  "(k \<in> fst ` set (opt_item k' f v)) = (k = k' \<and> v \<noteq> None)"
  by (cases v) (simp_all add: opt_item_def)

lemma keys_opt_item_append:
  "(k \<in> fst ` set (opt_item k' f v @ ys)) = (k = k' \<and> v \<noteq> None \<or> k \<in> fst ` set ys)"
  by (cases v) (simp_all add: opt_item_def)

lemma distinct_opt_item: "distinct (map fst (opt_item k f v))"
  by (cases v) (simp_all add: opt_item_def)

lemma distinct_opt_item_append:
  "distinct (map fst (opt_item k f v @ ys)) =
     (distinct (map fst ys) \<and> (v = None \<or> k \<notin> fst ` set ys))"
  by (cases v) (auto simp add: opt_item_def)

lemma distinct_Task_dict: "distinct (map fst (Task_dict t))"
  by (simp add: Task_dict_def keys_opt_item keys_opt_item_append distinct_opt_item
        distinct_opt_item_append del: map_append set_append)

lemma map_of_patch_spec:
  "map_of (dict_update old (AList.delete ''name'' (Task_dict t))) k =
     (if k = ''name'' then map_of old k
      else case map_of (Task_dict t) k of None \<Rightarrow> map_of old k | Some v \<Rightarrow> Some v)"
proof -
  have "distinct (map fst (AList.delete ''name'' (Task_dict t)))"
    by (simp add: distinct_delete distinct_Task_dict)
  then show ?thesis
    by (simp add: map_of_dict_update map_of_rev_distinct delete_conv' map_add_def
          split: option.splits)
qed

lemma map_of_opt_item:
  "map_of (opt_item k' f v) k = (if k = k' then map_option f v else None)"
  by (simp add: opt_item_def split: option.splits)

lemma map_of_opt_item_append:
  "map_of (opt_item k' f v @ ys) k =
     (if k = k' \<and> v \<noteq> None then map_option f v else map_of ys k)"
  by (cases v) (simp_all add: opt_item_def)

lemma map_of_Task_dict:
  "map_of (Task_dict t) k =
     (if k = ''user_id'' then Some (PStr (user_id t))
      else if k = ''task_id'' then Some (PInt (task_id t))
      else if k = ''name'' then Some (PStr (name t))
      else if k = ''importance'' then Some (PFloat (importance t))
      else if k = ''completed'' then map_option PBool (completed t)
      else if k = ''due'' then map_option PDateTime (due t)
      else if k = ''tags'' then map_option (\<lambda>xs. PList (map PStr xs)) (tags t)
      else if k = ''urls'' then map_option (\<lambda>xs. PList (map PStr xs)) (urls t)
      else if k = ''users'' then map_option (\<lambda>xs. PList (map PStr xs)) (users t)
      else if k = ''notes'' then map_option (\<lambda>xs. PList (map PStr xs)) (task_notes t)
      else if k = ''time_logs''
        then map_option (\<lambda>ls. PList (map (\<lambda>l. PDict (TimeLog_dict l)) ls)) (time_logs t)
      else None)"
  by (simp add: Task_dict_def map_of_opt_item map_of_opt_item_append del: map_of_append)

lemma update_key_set:
  "fst ` set (AList.update k v al) = insert k (fst ` set al)"
proof -
  have "set (map fst (AList.update k v al)) = insert k (set (map fst al))"
    by (auto simp: update_keys)
  then show ?thesis by simp
qed

lemma add_node_keys:
  "fst ` set (nodes (add_node graph n attr)) = insert n (fst ` set (nodes graph))"
  by (cases "map_of (nodes graph) n") (simp_all add: add_node_def update_key_set)

lemma patch_node_keys:
  "patch_node graph n kvs = (r, graph') \<Longrightarrow>
   fst ` set (nodes graph') = fst ` set (nodes graph)"
proof (induction kvs arbitrary: graph)
  case Nil
  then show ?case by simp
next
  case (Cons kv kvs)
  obtain k v where kv: "kv = (k, v)" by (cases kv)
  show ?case
  proof (cases "map_of (nodes graph) n")
    case None
    with Cons.prems show ?thesis by (simp add: kv node_setattr_def)
  next
    case (Some d)
    let ?g = "graph\<lparr>nodes := AList.update n (AList.update k v d) (nodes graph)\<rparr>"
    from Some have "n \<in> fst ` set (nodes graph)"
      by (metis map_of_eq_None_iff option.distinct(1))
    then have same: "fst ` set (nodes ?g) = fst ` set (nodes graph)"
      by (simp add: update_key_set insert_absorb)
    from Cons.prems Some have "patch_node ?g n kvs = (r, graph')"
      by (simp add: kv node_setattr_def)
    from Cons.IH[OF this] same show ?thesis by simp
  qed
qed

lemma update_fresh:
  "k \<notin> fst ` set al \<Longrightarrow> AList.update k v al = al @ [(k, v)]"
  by (induction al) auto

lemma dict_update_fresh:
  "distinct (map fst (d @ kvs)) \<Longrightarrow> dict_update d kvs = d @ kvs"
proof (induction kvs arbitrary: d)
  case Nil
  then show ?case by (simp add: dict_update_def)
next
  case (Cons kv kvs)
  obtain k v where kv: "kv = (k, v)" by (cases kv)
  from Cons.prems have fresh: "k \<notin> fst ` set d" by (auto simp: kv)
  from Cons.prems have "distinct (map fst ((d @ [(k, v)]) @ kvs))" by (auto simp: kv)
  from Cons.IH[OF this] fresh show ?case
    by (simp add: kv dict_update_def update_fresh)
qed

lemma kind_fresh: "''kind'' \<notin> fst ` set (Task_dict t)"
  by (simp add: Task_dict_def keys_opt_item keys_opt_item_append del: set_append)

section \<open>The example stores, evaluated\<close>

lemma spec_graph_eq:
  "spec_graph =
     \<lparr>nodes = [(0, [(''kind'', PStr ''task''), (''user_id'', PStr ''ann''), (''task_id'', PInt 0),
                   (''name'', PStr ''write spec''), (''importance'', PFloat 5),
                   (''tags'', PList [PStr ''a'', PStr ''b'']), (''users'', PList [PStr ''ann'']),
                   (''notes'', PList [PStr ''draft'']), (''time_logs'', PList [])])],
      edges = []\<rparr>"
  by (simp add: spec_graph_def create_task_def empty_graph_def spec_task_def add_node_def
        dict_update_def Task_dict_def opt_item_def)

lemma two_graph_eq:
  "two_graph =
     \<lparr>nodes = [(0, [(''kind'', PStr ''task''), (''user_id'', PStr ''ann''), (''task_id'', PInt 0),
                   (''name'', PStr ''write spec''), (''importance'', PFloat 5),
                   (''tags'', PList [PStr ''a'', PStr ''b'']), (''users'', PList [PStr ''ann'']),
                   (''notes'', PList [PStr ''draft'']), (''time_logs'', PList [])]),
               (1, [(''kind'', PStr ''task''), (''user_id'', PStr ''bob''), (''task_id'', PInt 1),
                   (''name'', PStr ''review''), (''importance'', PFloat 2),
                   (''completed'', PBool True), (''due'', PDateTime 20),
                   (''tags'', PList [PStr ''z''])])],
      edges = []\<rparr>"
  by (simp add: two_graph_def spec_graph_eq create_task_def other_task_def add_node_def
        dict_update_def Task_dict_def opt_item_def)

lemma done_graph_eq:
  "done_graph =
     \<lparr>nodes = [(0, [(''kind'', PStr ''task''), (''user_id'', PStr ''ann''), (''task_id'', PInt 0),
                   (''name'', PStr ''write spec''), (''importance'', PFloat 5),
                   (''completed'', PBool True),
                   (''tags'', PList [PStr ''a'', PStr ''b'']), (''users'', PList [PStr ''ann'']),
                   (''notes'', PList [PStr ''draft'']), (''time_logs'', PList [])])],
      edges = []\<rparr>"
  by (simp add: done_graph_def done_task_def create_task_def empty_graph_def spec_task_def
        add_node_def dict_update_def Task_dict_def opt_item_def)

lemma bare_graph_eq:
  "bare_graph =
     \<lparr>nodes = [(0, [(''kind'', PStr ''task''), (''user_id'', PStr ''ann''), (''task_id'', PInt 0),
                   (''name'', PStr ''plan''), (''importance'', PFloat 1)])],
      edges = []\<rparr>"
  by (simp add: bare_graph_def bare_task_def create_task_def empty_graph_def
        add_node_def dict_update_def Task_dict_def opt_item_def)

section \<open>Loading and writing back a task\<close>

text \<open>
  \<^verbatim>\<open>get_task_from_graph\<close> never returns a task: the lookup raises \<^verbatim>\<open>KeyError\<close> for an
  absent id, and the positional call of the model raises \<^verbatim>\<open>TypeError\<close> for a stored one.
  \<^verbatim>\<open>update_task_in_graph\<close> never stores anything. So every operation that loads a task
  first raises and leaves the graph as it was.
\<close>

lemma get_task_from_graph_raises:
  "get_task_from_graph tid graph = Inl (if nodes_contains graph tid then TypeError else KeyError)"
  by (simp add: get_task_from_graph_def nodes_getitem_def nodes_contains_def Task_positional_def
        split: option.splits)

lemma get_task_present:
  "map_of (nodes graph) tid = Some d \<Longrightarrow> get_task_from_graph tid graph = Inl TypeError"
  by (simp add: get_task_from_graph_raises nodes_contains_def)

lemma update_task_in_graph_raises:
  "\<exists>e. update_task_in_graph task graph = (Inl e, graph)"
  by (simp add: update_task_in_graph_def nodes_setitem_def Let_def
        split: pyval.splits list.splits)

lemma complete_task_raises:
  "\<exists>e. complete_task graph tid end_time_arg now = (Inl e, graph)"
  by (simp add: complete_task_def get_task_from_graph_raises)

lemma load_first_ops_raise:
  "\<exists>e. add_tag graph tid x = (Inl e, graph)"
  "\<exists>e. remove_tag graph tid x = (Inl e, graph)"
  "\<exists>e. add_url graph tid x = (Inl e, graph)"
  "\<exists>e. remove_url graph tid x = (Inl e, graph)"
  "\<exists>e. add_user graph tid x = (Inl e, graph)"
  "\<exists>e. remove_user graph tid x = (Inl e, graph)"
  "\<exists>e. add_note graph tid x = (Inl e, graph)"
  "\<exists>e. update_note graph tid i x = (Inl e, graph)"
  "\<exists>e. remove_note graph tid i = (Inl e, graph)"
  by (simp_all add: add_tag_def remove_tag_def add_url_def remove_url_def add_user_def
        remove_user_def add_note_def update_note_def remove_note_def
        get_task_from_graph_raises)

section \<open>Creating and patching nodes\<close>

text \<open>
  Node ids stay non-negative: \<^verbatim>\<open>create_task\<close> replaces a negative \<^verbatim>\<open>task_id\<close> by the
  node count before it adds the node, and the patch of an existing node adds none.
\<close>

lemma create_task_ids_nonneg:
  assumes "ids_nonneg graph" and "create_task graph task = (r, graph')"
  shows "ids_nonneg graph'"
proof (cases "task_id task < 0")
  case True
  with assms(2) have "graph' = add_node graph (int (length (nodes graph)))
      ((''kind'', PStr ''task'') # Task_dict (task\<lparr>task_id := int (length (nodes graph))\<rparr>))"
    by (auto simp: create_task_def Let_def)
  with assms(1) show ?thesis
    unfolding ids_nonneg_def by (simp only: add_node_keys) simp
next
  case False
  show ?thesis
  proof (cases "name task = ''_existing_node''")
    case True
    with False assms(2) obtain r' where
      "patch_node graph (task_id task) (AList.delete ''name'' (Task_dict task)) = (r', graph')"
      by (auto simp: create_task_def split: prod.splits sum.splits)
    from patch_node_keys[OF this] assms(1) show ?thesis
      unfolding ids_nonneg_def by simp
  next
    case n: False
    with False assms(2) have "graph' = add_node graph (task_id task)
      ((''kind'', PStr ''task'') # Task_dict task)"
      by (auto simp: create_task_def)
    with assms(1) False show ?thesis
      unfolding ids_nonneg_def by (simp only: add_node_keys) simp
  qed
qed

text \<open>
  Claim C6. For every already-existing node with id \<open>task_id\<close> and every task whose name is
  exactly \<^verbatim>\<open>"_existing_node"\<close>, \<^verbatim>\<open>create_task\<close> copies every explicitly-set field except
  \<^verbatim>\<open>name\<close> onto that node's attribute mapping, leaves every attribute not mentioned
  unchanged, and returns \<open>task_id\<close>.

  Stated over the stores of the data model, whose node ids are not negative (a negative
  \<open>task_id\<close> selects the new-node branch before the name is looked at). The required
  fields \<^verbatim>\<open>user_id\<close>, \<^verbatim>\<open>task_id\<close> and \<^verbatim>\<open>importance\<close> are always copied; an Optional
  field is copied when it holds a value and otherwise the node keeps what it had; every
  other attribute, \<^verbatim>\<open>name\<close> and \<^verbatim>\<open>kind\<close> among them, every other node and the edges
  are unchanged.
\<close>

theorem create_task_existing_node_patch:
  assumes "ids_nonneg graph" and "name task = ''_existing_node''"
    and "map_of (nodes graph) (task_id task) = Some old"
  shows "\<exists>graph' new.
           create_task graph task = (Inr (task_id task), graph')
         \<and> map_of (nodes graph') (task_id task) = Some new
         \<and> map_of new ''user_id'' = Some (PStr (user_id task))
         \<and> map_of new ''task_id'' = Some (PInt (task_id task))
         \<and> map_of new ''importance'' = Some (PFloat (importance task))
         \<and> map_of new ''completed'' =
             (case completed task of Some b \<Rightarrow> Some (PBool b) | None \<Rightarrow> map_of old ''completed'')
         \<and> map_of new ''due'' =
             (case due task of Some t \<Rightarrow> Some (PDateTime t) | None \<Rightarrow> map_of old ''due'')
         \<and> map_of new ''tags'' =
             (case tags task of Some xs \<Rightarrow> Some (PList (map PStr xs)) | None \<Rightarrow> map_of old ''tags'')
         \<and> map_of new ''urls'' =
             (case urls task of Some xs \<Rightarrow> Some (PList (map PStr xs)) | None \<Rightarrow> map_of old ''urls'')
         \<and> map_of new ''users'' =
             (case users task of Some xs \<Rightarrow> Some (PList (map PStr xs)) | None \<Rightarrow> map_of old ''users'')
         \<and> map_of new ''notes'' =
             (case task_notes task of Some xs \<Rightarrow> Some (PList (map PStr xs))
              | None \<Rightarrow> map_of old ''notes'')
         \<and> map_of new ''time_logs'' =
             (case time_logs task of
                Some ls \<Rightarrow> Some (PList (map (\<lambda>l. PDict (TimeLog_dict l)) ls))
              | None \<Rightarrow> map_of old ''time_logs'')
         \<and> (\<forall>k. k \<notin> {''user_id'', ''task_id'', ''importance'', ''completed'', ''due'', ''tags'',
                       ''urls'', ''users'', ''notes'', ''time_logs''}
                \<longrightarrow> map_of new k = map_of old k)
         \<and> (\<forall>m. m \<noteq> task_id task \<longrightarrow> map_of (nodes graph') m = map_of (nodes graph) m)
         \<and> map fst (nodes graph') = map fst (nodes graph)
         \<and> edges graph' = edges graph"
proof -
  let ?spec = "AList.delete ''name'' (Task_dict task)"
  let ?new = "dict_update old ?spec"
  let ?g = "graph\<lparr>nodes := AList.update (task_id task) ?new (nodes graph)\<rparr>"
  have "(task_id task, old) \<in> set (nodes graph)"
    using assms(3) by (rule map_of_SomeD)
  then have mem: "task_id task \<in> fst ` set (nodes graph)"
    by (rule image_eqI[rotated]) simp
  with assms(1) have nonneg: "0 \<le> task_id task"
    unfolding ids_nonneg_def by blast
  have run: "create_task graph task = (Inr (task_id task), ?g)"
    using nonneg assms(2,3) by (simp add: create_task_def patch_node_present)
  have node: "map_of (nodes ?g) (task_id task) = Some ?new"
    by (simp add: update_conv')
  have others: "\<forall>m. m \<noteq> task_id task \<longrightarrow> map_of (nodes ?g) m = map_of (nodes graph) m"
    by (simp add: update_conv')
  have keys: "map fst (nodes ?g) = map fst (nodes graph)"
    using mem by (simp add: update_keys)
  have f: "\<And>k. map_of ?new k =
     (if k = ''name'' then map_of old k
      else case map_of (Task_dict task) k of None \<Rightarrow> map_of old k | Some v \<Rightarrow> Some v)"
    by (rule map_of_patch_spec)
  have frame: "\<forall>k. k \<notin> {''user_id'', ''task_id'', ''importance'', ''completed'', ''due'', ''tags'',
                       ''urls'', ''users'', ''notes'', ''time_logs''}
                \<longrightarrow> map_of ?new k = map_of old k"
    unfolding f by (simp add: map_of_Task_dict)
  have fields:
    "map_of ?new ''user_id'' = Some (PStr (user_id task))"
    "map_of ?new ''task_id'' = Some (PInt (task_id task))"
    "map_of ?new ''importance'' = Some (PFloat (importance task))"
    "map_of ?new ''completed'' =
             (case completed task of Some b \<Rightarrow> Some (PBool b) | None \<Rightarrow> map_of old ''completed'')"
    "map_of ?new ''due'' =
             (case due task of Some t \<Rightarrow> Some (PDateTime t) | None \<Rightarrow> map_of old ''due'')"
    "map_of ?new ''tags'' =
             (case tags task of Some xs \<Rightarrow> Some (PList (map PStr xs)) | None \<Rightarrow> map_of old ''tags'')"
    "map_of ?new ''urls'' =
             (case urls task of Some xs \<Rightarrow> Some (PList (map PStr xs)) | None \<Rightarrow> map_of old ''urls'')"
    "map_of ?new ''users'' =
             (case users task of Some xs \<Rightarrow> Some (PList (map PStr xs)) | None \<Rightarrow> map_of old ''users'')"
    "map_of ?new ''notes'' =
             (case task_notes task of Some xs \<Rightarrow> Some (PList (map PStr xs))
              | None \<Rightarrow> map_of old ''notes'')"
    "map_of ?new ''time_logs'' =
             (case time_logs task of
                Some ls \<Rightarrow> Some (PList (map (\<lambda>l. PDict (TimeLog_dict l)) ls))
              | None \<Rightarrow> map_of old ''time_logs'')"
    unfolding f by (simp_all add: map_of_Task_dict split: option.splits)
  have e: "edges ?g = edges graph" by simp
  from run node fields frame others keys e show ?thesis by blast
qed
theorem create_task_existing_node_patch_witness:
  "ids_nonneg spec_graph \<and> name patch_task = ''_existing_node''
   \<and> (\<exists>old graph' new.
         map_of (nodes spec_graph) (task_id patch_task) = Some old
       \<and> create_task spec_graph patch_task = (Inr 0, graph')
       \<and> map_of (nodes graph') 0 = Some new
       \<and> map_of new ''user_id'' = Some (PStr ''bob'')
       \<and> map_of new ''completed'' = Some (PBool True)
       \<and> map_of new ''name'' = Some (PStr ''write spec'')
       \<and> map_of new ''tags'' = Some (PList [PStr ''a'', PStr ''b'']))"
proof -
  let ?old = "[(''kind'', PStr ''task''), (''user_id'', PStr ''ann''), (''task_id'', PInt 0),
               (''name'', PStr ''write spec''), (''importance'', PFloat 5),
               (''tags'', PList [PStr ''a'', PStr ''b'']), (''users'', PList [PStr ''ann'']),
               (''notes'', PList [PStr ''draft'']), (''time_logs'', PList [])]"
  have h1: "ids_nonneg spec_graph" by (simp add: ids_nonneg_def spec_graph_eq)
  have h2: "name patch_task = ''_existing_node''" by (simp add: patch_task_def)
  have h3: "map_of (nodes spec_graph) (task_id patch_task) = Some ?old"
    by (simp add: spec_graph_eq patch_task_def)
  from create_task_existing_node_patch [OF h1 h2 h3]
  obtain graph' new where
    "create_task spec_graph patch_task = (Inr (task_id patch_task), graph')"
    "map_of (nodes graph') (task_id patch_task) = Some new"
    "map_of new ''user_id'' = Some (PStr (user_id patch_task))"
    "map_of new ''completed'' =
       (case completed patch_task of Some b \<Rightarrow> Some (PBool b) | None \<Rightarrow> map_of ?old ''completed'')"
    "map_of new ''tags'' =
       (case tags patch_task of Some xs \<Rightarrow> Some (PList (map PStr xs)) | None \<Rightarrow> map_of ?old ''tags'')"
    "\<forall>k. k \<notin> {''user_id'', ''task_id'', ''importance'', ''completed'', ''due'', ''tags'',
                       ''urls'', ''users'', ''notes'', ''time_logs''}
                \<longrightarrow> map_of new k = map_of ?old k"
    by blast
  then have
    "create_task spec_graph patch_task = (Inr 0, graph')"
    "map_of (nodes graph') 0 = Some new"
    "map_of new ''user_id'' = Some (PStr ''bob'')"
    "map_of new ''completed'' = Some (PBool True)"
    "map_of new ''name'' = Some (PStr ''write spec'')"
    "map_of new ''tags'' = Some (PList [PStr ''a'', PStr ''b''])"
    by (simp_all add: patch_task_def)
  with h1 h2 h3 show ?thesis by blast
qed

text \<open>
  A task with a negative id becomes a new node under the node count, holding
  \<^verbatim>\<open>kind="task"\<close> and the exported fields of the task with its new id.
\<close>

lemma create_task_new_node:
  assumes "task_id task < 0"
    and "map_of (nodes graph) (int (length (nodes graph))) = None"
  shows "create_task graph task =
           (Inr (int (length (nodes graph))),
            graph\<lparr>nodes := nodes graph @
               [(int (length (nodes graph)),
                 (''kind'', PStr ''task'')
                   # Task_dict (task\<lparr>task_id := int (length (nodes graph))\<rparr>))]\<rparr>)"
proof -
  let ?t = "task\<lparr>task_id := int (length (nodes graph))\<rparr>"
  have "distinct (map fst ([] @ (''kind'', PStr ''task'') # Task_dict ?t))"
    using kind_fresh[of ?t] distinct_Task_dict[of ?t] by simp
  then have "dict_update [] ((''kind'', PStr ''task'') # Task_dict ?t)
               = (''kind'', PStr ''task'') # Task_dict ?t"
    by (simp only: dict_update_fresh append_Nil)
  with assms show ?thesis
    by (simp add: create_task_def add_node_def Let_def)
qed

text \<open>
  Claim C3. For every task passed to \<^verbatim>\<open>create_task\<close> (with a negative \<open>task_id\<close>, in
  which case the assigned id equals the current node count and is returned, or with a
  non-negative supplied one), reading the task back by the returned id yields a task with
  the same explicitly-set fields.

  On the code the round trip fails at the read: \<^verbatim>\<open>create_task\<close> stores the fields of
  the first task of the empty graph under id 0, the node count, and
  \<^verbatim>\<open>get_task_from_graph\<close> on that id raises \<^verbatim>\<open>TypeError\<close>.
\<close>

theorem create_then_get_raises:
  "create_task empty_graph spec_task = (Inr 0, spec_graph)
   \<and> nodes_getitem spec_graph 0 =
       Inr ((''kind'', PStr ''task'') # Task_dict (spec_task\<lparr>task_id := 0\<rparr>))
   \<and> get_task_from_graph 0 spec_graph = Inl TypeError"
  by (simp add: spec_graph_eq get_task_present nodes_getitem_def)
     (simp add: create_task_def empty_graph_def spec_task_def
        add_node_def dict_update_def Task_dict_def opt_item_def)

section \<open>Completing and updating\<close>

text \<open>
  Claim C1. For every stored task whose \<^verbatim>\<open>completed\<close> field is true, \<^verbatim>\<open>complete_task\<close>
  returns the task unchanged and performs no write to the store; so calling it twice, with
  any two end times, yields the same task state as calling it once.

  On the code the call does not return the task: for the stored, completed task of
  \<open>done_graph\<close> it raises \<^verbatim>\<open>TypeError\<close> while loading it. The store is left as it was.
\<close>

theorem complete_task_completed_raises:
  "nodes_getitem done_graph 0 =
     Inr [(''kind'', PStr ''task''), (''user_id'', PStr ''ann''), (''task_id'', PInt 0),
          (''name'', PStr ''write spec''), (''importance'', PFloat 5),
          (''completed'', PBool True),
          (''tags'', PList [PStr ''a'', PStr ''b'']), (''users'', PList [PStr ''ann'']),
          (''notes'', PList [PStr ''draft'']), (''time_logs'', PList [])]
   \<and> complete_task done_graph 0 (Some 7) 9 = (Inl TypeError, done_graph)"
  by (simp add: complete_task_def get_task_present nodes_getitem_def done_graph_eq)

text \<open>
  Claim C2. For every stored task that is not yet completed, \<^verbatim>\<open>complete_task\<close> sets
  \<^verbatim>\<open>completed\<close> to true and closes the last open time log, leaves a closed one
  untouched, or appends one new time log (start unset, end the given time, null note) when
  there is none.

  On the code the stored task of \<open>spec_graph\<close>, not completed and without time logs,
  is not completed: the call raises \<^verbatim>\<open>TypeError\<close> while loading it and the store keeps
  its attributes, with no time log added. The time log the last branch would build has
  \<^verbatim>\<open>note=None\<close>, which the model \<^verbatim>\<open>TimeLog\<close> rejects.
\<close>

theorem complete_task_open_raises:
  "nodes_getitem spec_graph 0 =
     Inr [(''kind'', PStr ''task''), (''user_id'', PStr ''ann''), (''task_id'', PInt 0),
          (''name'', PStr ''write spec''), (''importance'', PFloat 5),
          (''tags'', PList [PStr ''a'', PStr ''b'']), (''users'', PList [PStr ''ann'']),
          (''notes'', PList [PStr ''draft'']), (''time_logs'', PList [])]
   \<and> complete_task spec_graph 0 (Some 7) 9 = (Inl TypeError, spec_graph)
   \<and> TimeLog_new 0 ''ann'' None (Some 7) None = Inl ValidationError"
  by (simp add: complete_task_def get_task_present nodes_getitem_def spec_graph_eq TimeLog_new_def)

text \<open>
  Claim C4. For every \<open>task_id\<close> absent from the store, \<^verbatim>\<open>update_task\<close> and
  \<^verbatim>\<open>complete_task\<close> return a null result and raise no exception, leaving the store
  unchanged.

  \<^verbatim>\<open>update_task\<close> tests \<^verbatim>\<open>task_id in graph.nodes\<close> and returns \<^verbatim>\<open>None\<close>.
  \<^verbatim>\<open>complete_task\<close> looks the node up without that test, so on the empty graph it raises
  \<^verbatim>\<open>KeyError\<close>; its own test \<^verbatim>\<open>task is None\<close> is never reached.
\<close>

theorem missing_id_update_none_complete_raises:
  "update_task empty_graph 0 None (Some ''new name'') None None None = (Inr None, empty_graph)
   \<and> complete_task empty_graph 0 None 9 = (Inl KeyError, empty_graph)"
  by (simp add: update_task_def complete_task_def get_task_from_graph_raises nodes_contains_def
        empty_graph_def)

section \<open>Tags, urls, users and notes of a stored task\<close>

text \<open>
  Claim C5. For every stored task and value, \<^verbatim>\<open>remove_tag\<close>, \<^verbatim>\<open>remove_url\<close> and
  \<^verbatim>\<open>remove_user\<close> with a value currently in the set remove exactly that value, and with a
  value that is not a member fail with a hard error and leave the stored task unchanged.

  On the code the removal of a member fails too: \<^verbatim>\<open>remove_tag\<close> of the stored tag
  \<^verbatim>\<open>a\<close> and \<^verbatim>\<open>remove_user\<close> of the stored user \<^verbatim>\<open>ann\<close> raise \<^verbatim>\<open>TypeError\<close> while
  loading the task, and the store is left as it was.
\<close>

theorem remove_member_raises:
  "remove_tag spec_graph 0 ''a'' = (Inl TypeError, spec_graph)
   \<and> remove_user spec_graph 0 ''ann'' = (Inl TypeError, spec_graph)"
  by (simp add: remove_tag_def remove_user_def get_task_present spec_graph_eq)

text \<open>
  Claim C9. For every stored task with a notes list, \<^verbatim>\<open>update_note\<close> overwrites the note
  at index \<open>note_id\<close> when it is in range and leaves the state unchanged otherwise;
  \<^verbatim>\<open>remove_note\<close> removes the note at \<open>note_id\<close> only when \<open>0 \<le> note_id < length\<close>.

  On the code neither changes the stored note at index 0 of \<open>spec_graph\<close>, which is in
  range: both raise \<^verbatim>\<open>TypeError\<close> while loading the task.
\<close>

theorem note_ops_raise:
  "update_note spec_graph 0 0 ''final'' = (Inl TypeError, spec_graph)
   \<and> remove_note spec_graph 0 0 = (Inl TypeError, spec_graph)"
  by (simp add: update_note_def remove_note_def get_task_present spec_graph_eq)

text \<open>
  Claim C10. For every stored task whose \<^verbatim>\<open>tags\<close> field is absent, every call to
  \<^verbatim>\<open>add_tag\<close> or \<^verbatim>\<open>remove_tag\<close> fails with an error before any write to the store,
  rather than treating the absent field as an empty set; likewise \<^verbatim>\<open>add_url\<close> and
  \<^verbatim>\<open>remove_url\<close> when \<^verbatim>\<open>urls\<close> is absent, \<^verbatim>\<open>add_user\<close> and \<^verbatim>\<open>remove_user\<close> when
  \<^verbatim>\<open>users\<close> is absent.

  Each call returns the error and the graph it was given.
\<close>

theorem set_ops_fail_on_absent_field:
  assumes "map_of (nodes graph) tid = Some d"
  shows "(map_of d ''tags'' = None \<longrightarrow>
            add_tag graph tid x = (Inl TypeError, graph)
          \<and> remove_tag graph tid x = (Inl TypeError, graph))
       \<and> (map_of d ''urls'' = None \<longrightarrow>
            add_url graph tid x = (Inl TypeError, graph)
          \<and> remove_url graph tid x = (Inl TypeError, graph))
       \<and> (map_of d ''users'' = None \<longrightarrow>
            add_user graph tid x = (Inl TypeError, graph)
          \<and> remove_user graph tid x = (Inl TypeError, graph))"
  using assms
  by (simp add: add_tag_def remove_tag_def add_url_def remove_url_def add_user_def
        remove_user_def get_task_present)

theorem set_ops_fail_on_absent_field_witness:
  "(\<exists>d. map_of (nodes bare_graph) 0 = Some d
      \<and> map_of d ''tags'' = None \<and> map_of d ''urls'' = None \<and> map_of d ''users'' = None)
   \<and> add_tag bare_graph 0 ''urgent'' = (Inl TypeError, bare_graph)
   \<and> remove_tag bare_graph 0 ''urgent'' = (Inl TypeError, bare_graph)
   \<and> add_url bare_graph 0 ''urgent'' = (Inl TypeError, bare_graph)
   \<and> remove_url bare_graph 0 ''urgent'' = (Inl TypeError, bare_graph)
   \<and> add_user bare_graph 0 ''urgent'' = (Inl TypeError, bare_graph)
   \<and> remove_user bare_graph 0 ''urgent'' = (Inl TypeError, bare_graph)"
proof -
  let ?d = "[(''kind'', PStr ''task''), (''user_id'', PStr ''ann''), (''task_id'', PInt 0),
             (''name'', PStr ''plan''), (''importance'', PFloat 1)]"
  have h: "map_of (nodes bare_graph) 0 = Some ?d" by (simp add: bare_graph_eq)
  have a: "map_of ?d ''tags'' = None" "map_of ?d ''urls'' = None" "map_of ?d ''users'' = None"
    by simp_all
  from set_ops_fail_on_absent_field [OF h, of "''urgent''"] a h show ?thesis by blast
qed

section \<open>Listing\<close>

lemma intersects_Inr:
  "intersects graph key wanted i = Inr b \<Longrightarrow>
   b = (stored_set graph key i \<inter> PStr ` set wanted \<noteq> {})"
  by (auto simp: intersects_def stored_set_def nodes_getitem_def filter_empty_conv
        split: option.splits sum.splits if_splits)

lemma filter_err_intersects:
  "filter_err (intersects graph key wanted) xs = Inr ys \<Longrightarrow>
   ys = filter (\<lambda>i. stored_set graph key i \<inter> PStr ` set wanted \<noteq> {}) xs"
proof (induction xs arbitrary: ys)
  case Nil
  then show ?case by simp
next
  case (Cons x xs)
  from Cons.prems obtain b zs where
    b: "intersects graph key wanted x = Inr b" and
    zs: "filter_err (intersects graph key wanted) xs = Inr zs" and
    ys: "ys = (if b then x # zs else zs)"
    by (auto split: sum.splits)
  from Cons.IH[OF zs] intersects_Inr[OF b] ys show ?case by simp
qed

lemma search_filter_Inr:
  "search_filter valid_re graph s xs = Inr ys \<Longrightarrow> xs = [] \<and> ys = []"
  by (cases xs) (auto simp: search_filter_def split: if_splits sum.splits)

lemma map_err_Inr:
  "map_err f xs = Inr ys \<Longrightarrow> list_all2 (\<lambda>x y. f x = Inr y) xs ys"
  by (induction xs arbitrary: ys) (auto split: sum.splits)

lemma when_given_filter:
  assumes "when_given x (\<lambda>w. filter_err (intersects graph key w)) xs = Inr ys"
  shows "ys = filter (\<lambda>i. \<forall>w. x = Some w \<and> w \<noteq> [] \<longrightarrow>
                        stored_set graph key i \<inter> PStr ` set w \<noteq> {}) xs"
  using assms
  by (auto simp: when_given_def dest: filter_err_intersects split: option.splits if_splits)

lemma when_given_search:
  assumes "when_given search (search_filter valid_re graph) xs = Inr ys"
  shows "ys = xs \<and> ((\<exists>s. search = Some s \<and> s \<noteq> []) \<longrightarrow> ys = [])"
  using assms
  by (auto simp: when_given_def dest: search_filter_Inr split: option.splits if_splits)

text \<open>
  The tags, urls and users filters. Whenever a call with non-empty tags returns, the ids it
  kept are the candidates of the sort routine, in its order, that share a tag with the
  request and, for each of \<^verbatim>\<open>urls\<close> and \<^verbatim>\<open>users\<close> that is given and non-empty, share
  a value with it; the result holds the validated task of each kept id. A call with a
  non-empty \<^verbatim>\<open>search\<close> returns only when there is no candidate at all.
\<close>

lemma list_tasks_tag_filter:
  assumes "ts \<noteq> []"
    and "list_tasks sort_nodes valid_re Task_kw graph sort_by limit ascending only_leaves
           search (Some ts) uls usrs = Inr result"
  shows "\<exists>ids.
           list_task_ids sort_nodes valid_re graph sort_by limit ascending only_leaves
             search (Some ts) uls usrs = Inr ids
         \<and> ids = filter
                   (\<lambda>i. stored_set graph ''tags'' i \<inter> PStr ` set ts \<noteq> {}
                      \<and> (\<forall>us. uls = Some us \<and> us \<noteq> [] \<longrightarrow>
                             stored_set graph ''urls'' i \<inter> PStr ` set us \<noteq> {})
                      \<and> (\<forall>us. usrs = Some us \<and> us \<noteq> [] \<longrightarrow>
                             stored_set graph ''users'' i \<inter> PStr ` set us \<noteq> {}))
                   (sort_nodes graph sort_by limit ascending only_leaves)
         \<and> list_all2 (\<lambda>i t. \<exists>d. map_of (nodes graph) i = Some d \<and> Task_kw d = Inr t) ids result
         \<and> ((\<exists>s. search = Some s \<and> s \<noteq> []) \<longrightarrow> result = [])"
proof -
  let ?cands = "sort_nodes graph sort_by limit ascending only_leaves"
  from assms(2) obtain ids ds where
    ids: "list_task_ids sort_nodes valid_re graph sort_by limit ascending only_leaves
            search (Some ts) uls usrs = Inr ids" and
    ds: "map_err (nodes_getitem graph) ids = Inr ds" and
    res: "map_err Task_kw ds = Inr result"
    by (auto simp: list_tasks_def and_then_def split: sum.splits)
  from ids obtain i1 i2 i3 where
    s1: "when_given search (search_filter valid_re graph) ?cands = Inr i1" and
    s2: "when_given (Some ts) (\<lambda>w. filter_err (intersects graph ''tags'' w)) i1 = Inr i2" and
    s3: "when_given uls (\<lambda>w. filter_err (intersects graph ''urls'' w)) i2 = Inr i3" and
    s4: "when_given usrs (\<lambda>w. filter_err (intersects graph ''users'' w)) i3 = Inr ids"
    by (auto simp: list_task_ids_def and_then_def split: sum.splits)
  note f1 = when_given_search[OF s1]
  note f2 = when_given_filter[OF s2]
  note f3 = when_given_filter[OF s3]
  note f4 = when_given_filter[OF s4]
  have shape: "ids = filter
                   (\<lambda>i. stored_set graph ''tags'' i \<inter> PStr ` set ts \<noteq> {}
                      \<and> (\<forall>us. uls = Some us \<and> us \<noteq> [] \<longrightarrow>
                             stored_set graph ''urls'' i \<inter> PStr ` set us \<noteq> {})
                      \<and> (\<forall>us. usrs = Some us \<and> us \<noteq> [] \<longrightarrow>
                             stored_set graph ''users'' i \<inter> PStr ` set us \<noteq> {}))
                   ?cands"
    using f1 assms(1) by (subst f4, subst f3, subst f2) (simp add: conj_commute conj_left_commute cong: conj_cong)
  have l1: "list_all2 (\<lambda>i d. nodes_getitem graph i = Inr d) ids ds"
    by (rule map_err_Inr[OF ds])
  have l2: "list_all2 (\<lambda>d t. Task_kw d = Inr t) ds result"
    by (rule map_err_Inr[OF res])
  have "list_all2 (\<lambda>i t. \<exists>d. nodes_getitem graph i = Inr d \<and> Task_kw d = Inr t) ids result"
    using list_all2_trans[where ?P1.0="\<lambda>i d. nodes_getitem graph i = Inr d"
        and ?P2.0="\<lambda>d t. Task_kw d = Inr t"
        and ?P3.0="\<lambda>i t. \<exists>d. nodes_getitem graph i = Inr d \<and> Task_kw d = Inr t", OF _ l1 l2]
    by blast
  then have mat: "list_all2 (\<lambda>i t. \<exists>d. map_of (nodes graph) i = Some d \<and> Task_kw d = Inr t) ids result"
    by (rule list_all2_mono) (auto simp: nodes_getitem_def split: option.splits)
  have empty: "(\<exists>s. search = Some s \<and> s \<noteq> []) \<longrightarrow> result = []"
  proof
    assume "\<exists>s. search = Some s \<and> s \<noteq> []"
    with f1 have "?cands = []" by auto
    with shape have "ids = []" by simp
    with mat show "result = []" by simp
  qed
  from ids shape mat empty show ?thesis by blast
qed

lemma list_tasks_tag_filter_example:
  "[''b'', ''c''] \<noteq> ([] :: string list)
   \<and> list_tasks (\<lambda>g sb lim asc ol. [1, 0]) (\<lambda>s. True) Task_exact two_graph ''importance'' 10 False
       False None (Some [''b'', ''c'']) None None = Inr [spec_task\<lparr>task_id := 0\<rparr>]
   \<and> list_task_ids (\<lambda>g sb lim asc ol. [1, 0]) (\<lambda>s. True) two_graph ''importance'' 10 False
       False None (Some [''b'', ''c'']) None None = Inr [0]"
proof -
  have h1: "[''b'', ''c''] \<noteq> ([] :: string list)" by simp
  have ids: "list_task_ids (\<lambda>g sb lim asc ol. [1, 0]) (\<lambda>s. True) two_graph ''importance'' 10 False
       False None (Some [''b'', ''c'']) None None = Inr [0]"
    by (simp add: list_task_ids_def and_then_def when_given_def intersects_def nodes_getitem_def
          two_graph_eq dict_get_def py_iter_def)
  have h2: "list_tasks (\<lambda>g sb lim asc ol. [1, 0]) (\<lambda>s. True) Task_exact two_graph ''importance'' 10 False
       False None (Some [''b'', ''c'']) None None = Inr [spec_task\<lparr>task_id := 0\<rparr>]"
    unfolding list_tasks_def ids
    by (simp add: and_then_def nodes_getitem_def two_graph_eq Task_exact_def
          required_def optional_def as_str_def as_int_def as_float_def as_bool_def
          as_datetime_def as_str_list_def as_TimeLog_list_def spec_task_def)
  from list_tasks_tag_filter [OF h1 h2] obtain ids' where
    "list_task_ids (\<lambda>g sb lim asc ol. [1, 0]) (\<lambda>s. True) two_graph ''importance'' 10 False
       False None (Some [''b'', ''c'']) None None = Inr ids'"
    by blast
  with ids h1 h2 show ?thesis by simp
qed

text \<open>
  The filters do return on the stores the operations write: without a search pattern, and
  with every candidate a node whose filtered attributes are lists of hashable values,
  the kept ids are computed, not only characterised.
\<close>

lemma filter_err_total:
  "(\<forall>x \<in> set xs. p x = Inr (q x)) \<Longrightarrow> filter_err p xs = Inr (filter q xs)"
  by (induction xs) simp_all

lemma intersects_total:
  "readable graph key i \<Longrightarrow>
   intersects graph key wanted i = Inr (stored_set graph key i \<inter> PStr ` set wanted \<noteq> {})"
  by (auto simp: readable_def intersects_def stored_set_def nodes_getitem_def filter_empty_conv
        split: option.splits sum.splits)

lemma when_given_total:
  assumes "\<forall>i \<in> set xs. \<forall>w. x = Some w \<and> w \<noteq> [] \<longrightarrow> readable graph key i"
  shows "when_given x (\<lambda>w. filter_err (intersects graph key w)) xs =
           Inr (filter (\<lambda>i. \<forall>w. x = Some w \<and> w \<noteq> [] \<longrightarrow>
                          stored_set graph key i \<inter> PStr ` set w \<noteq> {}) xs)"
proof (cases "\<exists>w. x = Some w \<and> w \<noteq> []")
  case True
  then obtain w where w: "x = Some w" "w \<noteq> []" by blast
  with assms have "\<forall>i \<in> set xs. intersects graph key w i =
      Inr (stored_set graph key i \<inter> PStr ` set w \<noteq> {})"
    by (simp add: intersects_total)
  from filter_err_total[OF this] w show ?thesis by (simp add: when_given_def)
next
  case False
  then show ?thesis by (auto simp: when_given_def split: option.splits)
qed

lemma list_task_ids_returns:
  assumes "search = None \<or> search = Some []"
    and "\<forall>i \<in> set (sort_nodes graph sort_by limit ascending only_leaves).
           (\<forall>w. tgs = Some w \<and> w \<noteq> [] \<longrightarrow> readable graph ''tags'' i)
         \<and> (\<forall>w. uls = Some w \<and> w \<noteq> [] \<longrightarrow> readable graph ''urls'' i)
         \<and> (\<forall>w. usrs = Some w \<and> w \<noteq> [] \<longrightarrow> readable graph ''users'' i)"
  shows "list_task_ids sort_nodes valid_re graph sort_by limit ascending only_leaves
           search tgs uls usrs =
         Inr (filter
                (\<lambda>i. (\<forall>w. tgs = Some w \<and> w \<noteq> [] \<longrightarrow>
                          stored_set graph ''tags'' i \<inter> PStr ` set w \<noteq> {})
                   \<and> (\<forall>w. uls = Some w \<and> w \<noteq> [] \<longrightarrow>
                          stored_set graph ''urls'' i \<inter> PStr ` set w \<noteq> {})
                   \<and> (\<forall>w. usrs = Some w \<and> w \<noteq> [] \<longrightarrow>
                          stored_set graph ''users'' i \<inter> PStr ` set w \<noteq> {}))
                (sort_nodes graph sort_by limit ascending only_leaves))"
proof -
  let ?cands = "sort_nodes graph sort_by limit ascending only_leaves"
  have s1: "when_given search (search_filter valid_re graph) ?cands = Inr ?cands"
    using assms(1) by (auto simp: when_given_def)
  have s2: "when_given tgs (\<lambda>w. filter_err (intersects graph ''tags'' w)) ?cands =
      Inr (filter (\<lambda>i. \<forall>w. tgs = Some w \<and> w \<noteq> [] \<longrightarrow>
                          stored_set graph ''tags'' i \<inter> PStr ` set w \<noteq> {}) ?cands)"
    (is "_ = Inr ?i2")
    using assms(2) by (intro when_given_total) blast
  have s3: "when_given uls (\<lambda>w. filter_err (intersects graph ''urls'' w)) ?i2 =
      Inr (filter (\<lambda>i. \<forall>w. uls = Some w \<and> w \<noteq> [] \<longrightarrow>
                          stored_set graph ''urls'' i \<inter> PStr ` set w \<noteq> {}) ?i2)"
    (is "_ = Inr ?i3")
    using assms(2) by (intro when_given_total) auto
  have s4: "when_given usrs (\<lambda>w. filter_err (intersects graph ''users'' w)) ?i3 =
      Inr (filter (\<lambda>i. \<forall>w. usrs = Some w \<and> w \<noteq> [] \<longrightarrow>
                          stored_set graph ''users'' i \<inter> PStr ` set w \<noteq> {}) ?i3)"
    using assms(2) by (intro when_given_total) auto
  show ?thesis
    unfolding list_task_ids_def and_then_def s1 sum.case s2 s3 s4
    by (simp add: conj_commute conj_left_commute cong: conj_cong)
qed

text \<open>
  Claim C7. For every call to \<^verbatim>\<open>list_tasks\<close> with a non-empty \<^verbatim>\<open>tags\<close> argument, a
  candidate is kept if and only if its stored tag set has at least one element in common
  with the requested tags; the search, tags, urls and users filters compose as a
  conjunction, so a task appears in the result only if it passes every non-empty filter
  dimension.

  On the code the tags filter does not compose with the search filter. With the tags
  \<^verbatim>\<open>b\<close>, \<^verbatim>\<open>c\<close> and no search pattern the call on \<open>two_graph\<close> keeps node 0, whose tags
  are \<^verbatim>\<open>a\<close>, \<^verbatim>\<open>b\<close> and whose name is \<^verbatim>\<open>write spec\<close>. With the search pattern
  \<^verbatim>\<open>spec\<close> added, which that name contains, the same call raises \<^verbatim>\<open>TypeError\<close> in the
  search filter and keeps nothing.
\<close>

theorem list_tasks_tags_with_search_raises:
  "list_tasks (\<lambda>g sb lim asc ol. [1, 0]) (\<lambda>s. True) Task_exact two_graph ''importance'' 10 False
     False None (Some [''b'', ''c'']) None None = Inr [spec_task\<lparr>task_id := 0\<rparr>]
   \<and> map_of (nodes two_graph) 0 =
       Some [(''kind'', PStr ''task''), (''user_id'', PStr ''ann''), (''task_id'', PInt 0),
             (''name'', PStr ''write spec''), (''importance'', PFloat 5),
             (''tags'', PList [PStr ''a'', PStr ''b'']), (''users'', PList [PStr ''ann'']),
             (''notes'', PList [PStr ''draft'']), (''time_logs'', PList [])]
   \<and> stored_set two_graph ''tags'' 0 \<inter> PStr ` set [''b'', ''c''] \<noteq> {}
   \<and> list_tasks (\<lambda>g sb lim asc ol. [1, 0]) (\<lambda>s. True) Task_exact two_graph ''importance'' 10 False
       False (Some ''spec'') (Some [''b'', ''c'']) None None = Inl TypeError"
proof -
  have ids: "list_task_ids (\<lambda>g sb lim asc ol. [1, 0]) (\<lambda>s. True) two_graph ''importance'' 10 False
       False None (Some [''b'', ''c'']) None None = Inr [0]"
    by (simp add: list_task_ids_def and_then_def when_given_def intersects_def nodes_getitem_def
          two_graph_eq dict_get_def py_iter_def)
  have a: "list_tasks (\<lambda>g sb lim asc ol. [1, 0]) (\<lambda>s. True) Task_exact two_graph ''importance'' 10 False
       False None (Some [''b'', ''c'']) None None = Inr [spec_task\<lparr>task_id := 0\<rparr>]"
    unfolding list_tasks_def ids
    by (simp add: and_then_def nodes_getitem_def two_graph_eq Task_exact_def
          required_def optional_def as_str_def as_int_def as_float_def as_bool_def
          as_datetime_def as_str_list_def as_TimeLog_list_def spec_task_def)
  have b: "map_of (nodes two_graph) 0 =
       Some [(''kind'', PStr ''task''), (''user_id'', PStr ''ann''), (''task_id'', PInt 0),
             (''name'', PStr ''write spec''), (''importance'', PFloat 5),
             (''tags'', PList [PStr ''a'', PStr ''b'']), (''users'', PList [PStr ''ann'']),
             (''notes'', PList [PStr ''draft'']), (''time_logs'', PList [])]"
    by (simp add: two_graph_eq)
  have c: "stored_set two_graph ''tags'' 0 \<inter> PStr ` set [''b'', ''c''] \<noteq> {}"
    by (simp add: stored_set_def two_graph_eq dict_get_def py_iter_def)
  have d: "list_tasks (\<lambda>g sb lim asc ol. [1, 0]) (\<lambda>s. True) Task_exact two_graph ''importance'' 10 False
       False (Some ''spec'') (Some [''b'', ''c'']) None None = Inl TypeError"
    by (simp add: list_tasks_def list_task_ids_def and_then_def when_given_def search_filter_def
          nodes_getitem_def two_graph_eq)
  from a b c d show ?thesis by blast
qed

text \<open>
  Claim C8. For every call to \<^verbatim>\<open>list_tasks\<close> with a non-empty \<^verbatim>\<open>search\<close> argument, the
  result keeps exactly the candidates whose name matches the pattern as a regular-expression
  search anywhere in the name.

  On the code the search filter calls the compiled pattern as a function instead of its
  \<^verbatim>\<open>search\<close> method: with the pattern \<^verbatim>\<open>spec\<close> and the one candidate \<^verbatim>\<open>write spec\<close>
  the call raises \<^verbatim>\<open>TypeError\<close> and returns no list.
\<close>

theorem list_tasks_search_raises:
  "list_tasks (\<lambda>g sb lim asc ol. [0]) (\<lambda>s. True) Task_exact spec_graph ''importance'' 10 False
     False (Some ''spec'') None None None = Inl TypeError"
  by (simp add: list_tasks_def list_task_ids_def and_then_def when_given_def search_filter_def
        nodes_getitem_def spec_graph_eq)

end
